theory Spec2Isabelle
  imports Complex_Main "HOL-Library.Word" "HOL-Library.Multiset"
begin

section \<open>Strings, numbers and the credential slot\<close>

text \<open>
  A JavaScript string is a sequence of UTF-16 code units, and \<open>===\<close> on strings compares
  those sequences. The string literals of \<open>src/index.tsx\<close> are written out below as
  their code units (the user-visible messages and the risk ratings are Chinese text).

  A JavaScript number is modelled as a real: \<open>>=\<close> and the sign of a difference agree
  with the order of the reals on every finite number. \<open>NaN\<close> is not modelled;
  \<open>JSON.parse\<close>, the only origin of a score, never yields it.
\<close>

type_synonym jsstring = "16 word list"

type_synonym number = real

text \<open>\<open>localStorage\<close>: a map from key strings to value strings.\<close>

type_synonym storage = "jsstring \<rightharpoonup> jsstring"

text \<open>The literal \<open>'gemini_api_key'\<close>.\<close>

definition gemini_api_key :: jsstring where
  "gemini_api_key =
     [0x0067, 0x0065, 0x006D, 0x0069, 0x006E, 0x0069, 0x005F, 0x0061, 0x0070, 0x0069,
      0x005F, 0x006B, 0x0065, 0x0079]"

text \<open>
  \<open>const getApiKey = () => localStorage.getItem('gemini_api_key')\<close>: the stored string, or
  \<open>null\<close> (here \<open>None\<close>) when the key has never been written.
\<close>

definition getApiKey :: "storage \<Rightarrow> jsstring option" where
  "getApiKey ls = ls gemini_api_key"

text \<open>
  \<open>String.prototype.trim\<close> strips the code units that ECMAScript calls WhiteSpace or
  LineTerminator from both ends: U+0009 to U+000D, U+0020, U+00A0, U+1680, U+2000 to
  U+200A, U+2028, U+2029, U+202F, U+205F, U+3000 and U+FEFF.
\<close>

definition isWhiteSpace :: "16 word \<Rightarrow> bool" where
  "isWhiteSpace c \<longleftrightarrow>
     c \<in> set [0x0009, 0x000A, 0x000B, 0x000C, 0x000D, 0x0020, 0x00A0, 0x1680,
              0x2028, 0x2029, 0x202F, 0x205F, 0x3000, 0xFEFF]
     \<or> (0x2000 \<le> c \<and> c \<le> 0x200A)"

definition trim :: "jsstring \<Rightarrow> jsstring" where
  "trim s = rev (dropWhile isWhiteSpace (rev (dropWhile isWhiteSpace s)))"

section \<open>Stock screener\<close>

record KeyMetrics =
  grossMargin :: jsstring
  peRatio :: jsstring

text \<open>
  \<open>interface RecommendedStock\<close>. The field \<open>ticker\<close> is named \<open>stock_ticker\<close> here,
  because the analyzer's input field below has the same name.
\<close>

record RecommendedStock =
  name :: jsstring
  stock_ticker :: jsstring
  exchange :: jsstring
  score :: number
  thesis :: jsstring
  keyMetrics :: KeyMetrics

text \<open>The class names \<open>'high'\<close>, \<open>'medium'\<close> and \<open>'low'\<close>.\<close>

definition high :: jsstring where
  "high = [0x0068, 0x0069, 0x0067, 0x0068]"

definition medium :: jsstring where
  "medium = [0x006D, 0x0065, 0x0064, 0x0069, 0x0075, 0x006D]"

definition low :: jsstring where
  "low = [0x006C, 0x006F, 0x0077]"

text \<open>
  \<^verbatim>\<open>
  const getScoreClass = (score: number) => {
      if (score >= 85) return 'high';
      if (score >= 60) return 'medium';
      return 'low';
  };
  \<close>
\<close>

definition getScoreClass :: "number \<Rightarrow> jsstring" where
  "getScoreClass s = (if s \<ge> 85 then high else if s \<ge> 60 then medium else low)"

text \<open>
  The user-visible messages of the screener, in source order: the request to configure
  the Gemini API key on the settings page, the request to enter screening criteria, and
  the generic failure message.
\<close>

definition msg_missing_credential :: jsstring where
  "msg_missing_credential =
     [0x8BF7, 0x5148, 0x5728, 0x201C, 0x8BBE, 0x7F6E, 0x201D, 0x9875, 0x9762, 0x4E2D,
      0x914D, 0x7F6E, 0x60A8, 0x7684, 0x0020, 0x0047, 0x0065, 0x006D, 0x0069, 0x006E,
      0x0069, 0x0020, 0x0041, 0x0050, 0x0049, 0x0020, 0x004B, 0x0065, 0x0079, 0x3002]"

definition msg_empty_criteria :: jsstring where
  "msg_empty_criteria =
     [0x8BF7, 0x8F93, 0x5165, 0x60A8, 0x7684, 0x9009, 0x80A1, 0x6807, 0x51C6, 0x3002]"

definition msg_screen_failed :: jsstring where
  "msg_screen_failed =
     [0x7B5B, 0x9009, 0x5931, 0x8D25, 0x3002, 0x8BF7, 0x68C0, 0x67E5, 0x60A8, 0x7684,
      0x0041, 0x0050, 0x0049, 0x0020, 0x004B, 0x0065, 0x0079, 0x662F, 0x5426, 0x6709,
      0x6548, 0xFF0C, 0x8C03, 0x6574, 0x60A8, 0x7684, 0x6807, 0x51C6, 0x6216, 0x7A0D,
      0x540E, 0x91CD, 0x8BD5, 0x3002]"

text \<open>
  The remote call. \<open>new GoogleGenAI({ apiKey })\<close> followed by
  \<open>ai.models.generateContent({ model, contents: prompt, config })\<close> is one request; the
  prompt is a fixed template with the user's text spliced in, and the response schema is
  one of two constants of the file. The promise either rejects or resolves to a response
  whose \<open>text\<close> may be undefined.
\<close>

datatype prompt = ScreeningPrompt jsstring | AnalysisPrompt jsstring

datatype schema = screenerSchema | analysisSchema

definition gemini_2_5_flash :: jsstring where
  "gemini_2_5_flash =
     [0x0067, 0x0065, 0x006D, 0x0069, 0x006E, 0x0069, 0x002D, 0x0032, 0x002E, 0x0035,
      0x002D, 0x0066, 0x006C, 0x0061, 0x0073, 0x0068]"

record request =
  apiKey :: jsstring
  model :: jsstring
  contents :: prompt
  responseSchema :: schema

datatype response = Rejected | Resolved "jsstring option"

text \<open>
  \<open>Array.prototype.sort(compareFn)\<close> is stable (ECMAScript 2019 and later) and orders
  \<open>a\<close> before \<open>b\<close> when \<open>compareFn(a, b) < 0\<close>. It is modelled by insertion from the
  right, each element going in front of the first one it does not compare greater than.
\<close>

fun sort_insert :: "('a \<Rightarrow> 'a \<Rightarrow> number) \<Rightarrow> 'a \<Rightarrow> 'a list \<Rightarrow> 'a list" where
  "sort_insert compareFn a [] = [a]"
| "sort_insert compareFn a (b # bs) =
     (if compareFn a b \<le> 0 then a # b # bs else b # sort_insert compareFn a bs)"

fun Array_sort :: "('a \<Rightarrow> 'a \<Rightarrow> number) \<Rightarrow> 'a list \<Rightarrow> 'a list" where
  "Array_sort compareFn [] = []"
| "Array_sort compareFn (a # as) = sort_insert compareFn a (Array_sort compareFn as)"

text \<open>The comparator of \<open>handleScreen\<close>: \<open>(a, b) => b.score - a.score\<close>.\<close>

definition byScoreDesc :: "RecommendedStock \<Rightarrow> RecommendedStock \<Rightarrow> number" where
  "byScoreDesc a b = score b - score a"

text \<open>The state of the \<open>StockScreener\<close> component (its four \<open>useState\<close> cells).\<close>

record StockScreener =
  criteria :: jsstring
  loading :: bool
  error :: jsstring
  screenerResults :: "RecommendedStock list option"

definition setCriteria :: "jsstring \<Rightarrow> StockScreener \<Rightarrow> StockScreener" where
  "setCriteria v st = st\<lparr>criteria := v\<rparr>"

text \<open>
  \<open>handleScreen\<close> up to its \<open>await\<close>: the two guards, then the three setters, then the
  request. The result is the new state and the request issued, if any. \<open>!apiKey\<close> holds
  for \<open>null\<close> and for the empty string.
\<close>

definition handleScreen_begin :: "storage \<Rightarrow> StockScreener \<Rightarrow> StockScreener \<times> request option" where
  "handleScreen_begin ls st =
     (case getApiKey ls of
        None \<Rightarrow> (st\<lparr>error := msg_missing_credential\<rparr>, None)
      | Some k \<Rightarrow>
          if k = [] then (st\<lparr>error := msg_missing_credential\<rparr>, None)
          else if trim (criteria st) = [] then (st\<lparr>error := msg_empty_criteria\<rparr>, None)
          else (st\<lparr>loading := True, error := [], screenerResults := None\<rparr>,
                Some \<lparr>apiKey = k, model = gemini_2_5_flash,
                      contents = ScreeningPrompt (criteria st),
                      responseSchema = screenerSchema\<rparr>))"

text \<open>
  \<open>handleScreen\<close> after the \<open>await\<close>: the rest of the \<open>try\<close> block, the \<open>catch\<close> and the
  \<open>finally\<close>. \<open>JSON.parse\<close> is a parameter; \<open>None\<close> is its SyntaxError. A rejected
  promise, an undefined \<open>text\<close> and a parse error all reach the \<open>catch\<close>.
\<close>

definition handleScreen_resume ::
    "(jsstring \<Rightarrow> RecommendedStock list option) \<Rightarrow> response \<Rightarrow> StockScreener \<Rightarrow> StockScreener" where
  "handleScreen_resume JSON_parse resp st =
     (let st' =
        (case resp of
           Rejected \<Rightarrow> st\<lparr>error := msg_screen_failed\<rparr>
         | Resolved None \<Rightarrow> st\<lparr>error := msg_screen_failed\<rparr>
         | Resolved (Some text) \<Rightarrow>
             (case JSON_parse (trim text) of
                None \<Rightarrow> st\<lparr>error := msg_screen_failed\<rparr>
              | Some resultData \<Rightarrow>
                  st\<lparr>screenerResults := Some (Array_sort byScoreDesc resultData)\<rparr>))
      in st'\<lparr>loading := False\<rparr>)"

text \<open>
  One whole submission. While the call is in flight the button is disabled, so the only
  events of the view are edits of the text area (\<open>edits\<close>, applied in order). The result
  is the final state and the list of remote calls issued.
\<close>

definition handleScreen ::
    "(jsstring \<Rightarrow> RecommendedStock list option) \<Rightarrow> (request \<Rightarrow> response) \<Rightarrow> storage \<Rightarrow>
     jsstring list \<Rightarrow> StockScreener \<Rightarrow> StockScreener \<times> request list" where
  "handleScreen JSON_parse generateContent ls edits st =
     (case handleScreen_begin ls st of
        (st', None) \<Rightarrow> (st', [])
      | (st', Some rq) \<Rightarrow>
          (handleScreen_resume JSON_parse (generateContent rq)
             (foldl (\<lambda>s v. setCriteria v s) st' edits), [rq]))"

section \<open>Single stock analyzer\<close>

text \<open>
  \<open>interface StockAnalysis\<close> and its parts. Fields whose names are already taken above
  carry a prefix (\<open>profile_\<close>, \<open>period_\<close>, \<open>metric_\<close>).
\<close>

record Metric =
  metric_value :: jsstring
  metric_comment :: jsstring

record FinancialPeriod =
  period :: jsstring
  revenue :: Metric
  netProfit :: Metric
  period_grossMargin :: Metric
  period_peRatio :: Metric

record CompanyProfile =
  profile_name :: jsstring
  profile_ticker :: jsstring
  profile_exchange :: jsstring
  industry :: jsstring
  description :: jsstring

record SwotAnalysis =
  strengths :: "jsstring list"
  weaknesses :: "jsstring list"
  opportunities :: "jsstring list"
  threats :: "jsstring list"

record InvestmentThesis =
  bull :: jsstring
  bear :: jsstring

record RiskAnalysis =
  rating :: jsstring
  summary :: jsstring
  keyFactors :: "jsstring list"

record StockAnalysis =
  companyProfile :: CompanyProfile
  financialSummary :: "FinancialPeriod list"
  swotAnalysis :: SwotAnalysis
  investmentThesis :: InvestmentThesis
  riskAnalysis :: RiskAnalysis
  conclusion :: jsstring

text \<open>
  The three ratings of the enum (high risk: U+9AD8 U+98CE U+9669, medium risk: U+4E2D
  U+7B49 U+98CE U+9669, low risk: U+4F4E U+98CE U+9669) and the class names
  \<open>'risk-high'\<close>, \<open>'risk-medium'\<close>, \<open>'risk-low'\<close>.
\<close>

definition rating_high :: jsstring where
  "rating_high = [0x9AD8, 0x98CE, 0x9669]"

definition rating_medium :: jsstring where
  "rating_medium = [0x4E2D, 0x7B49, 0x98CE, 0x9669]"

definition rating_low :: jsstring where
  "rating_low = [0x4F4E, 0x98CE, 0x9669]"

definition risk_high :: jsstring where
  "risk_high = [0x0072, 0x0069, 0x0073, 0x006B, 0x002D, 0x0068, 0x0069, 0x0067, 0x0068]"

definition risk_medium :: jsstring where
  "risk_medium =
     [0x0072, 0x0069, 0x0073, 0x006B, 0x002D, 0x006D, 0x0065, 0x0064, 0x0069, 0x0075, 0x006D]"

definition risk_low :: jsstring where
  "risk_low = [0x0072, 0x0069, 0x0073, 0x006B, 0x002D, 0x006C, 0x006F, 0x0077]"

text \<open>
  \<^verbatim>\<open>
  const getRiskClass = (rating: string) => {
      if (rating === [high risk]) return 'risk-high';
      if (rating === [medium risk]) return 'risk-medium';
      if (rating === [low risk]) return 'risk-low';
      return '';
  };
  \<close>
\<close>

definition getRiskClass :: "jsstring \<Rightarrow> jsstring" where
  "getRiskClass r =
     (if r = rating_high then risk_high
      else if r = rating_medium then risk_medium
      else if r = rating_low then risk_low
      else [])"

text \<open>
  The messages of the analyzer that differ from the screener's: the request to enter a
  ticker and the generic failure message.
\<close>

definition msg_empty_ticker :: jsstring where
  "msg_empty_ticker = [0x8BF7, 0x8F93, 0x5165, 0x80A1, 0x7968, 0x4EE3, 0x7801, 0x3002]"

definition msg_analyze_failed :: jsstring where
  "msg_analyze_failed =
     [0x5206, 0x6790, 0x5931, 0x8D25, 0x3002, 0x8BF7, 0x68C0, 0x67E5, 0x60A8, 0x7684,
      0x0041, 0x0050, 0x0049, 0x0020, 0x004B, 0x0065, 0x0079, 0x662F, 0x5426, 0x6709,
      0x6548, 0x3001, 0x80A1, 0x7968, 0x4EE3, 0x7801, 0x662F, 0x5426, 0x6B63, 0x786E,
      0xFF0C, 0x6216, 0x7A0D, 0x540E, 0x91CD, 0x8BD5, 0x3002]"

text \<open>
  The state of the \<open>StockAnalyzer\<close> component. Its cells \<open>loading\<close> and \<open>error\<close> are
  named \<open>analyzer_loading\<close> and \<open>analyzer_error\<close>.
\<close>

record StockAnalyzer =
  ticker :: jsstring
  analyzer_loading :: bool
  analyzer_error :: jsstring
  analysis :: "StockAnalysis option"

definition setTicker :: "jsstring \<Rightarrow> StockAnalyzer \<Rightarrow> StockAnalyzer" where
  "setTicker v st = st\<lparr>ticker := v\<rparr>"

definition handleAnalyze_begin :: "storage \<Rightarrow> StockAnalyzer \<Rightarrow> StockAnalyzer \<times> request option" where
  "handleAnalyze_begin ls st =
     (case getApiKey ls of
        None \<Rightarrow> (st\<lparr>analyzer_error := msg_missing_credential\<rparr>, None)
      | Some k \<Rightarrow>
          if k = [] then (st\<lparr>analyzer_error := msg_missing_credential\<rparr>, None)
          else if trim (ticker st) = [] then (st\<lparr>analyzer_error := msg_empty_ticker\<rparr>, None)
          else (st\<lparr>analyzer_loading := True, analyzer_error := [], analysis := None\<rparr>,
                Some \<lparr>apiKey = k, model = gemini_2_5_flash,
                      contents = AnalysisPrompt (ticker st),
                      responseSchema = analysisSchema\<rparr>))"

definition handleAnalyze_resume ::
    "(jsstring \<Rightarrow> StockAnalysis option) \<Rightarrow> response \<Rightarrow> StockAnalyzer \<Rightarrow> StockAnalyzer" where
  "handleAnalyze_resume JSON_parse resp st =
     (let st' =
        (case resp of
           Rejected \<Rightarrow> st\<lparr>analyzer_error := msg_analyze_failed\<rparr>
         | Resolved None \<Rightarrow> st\<lparr>analyzer_error := msg_analyze_failed\<rparr>
         | Resolved (Some text) \<Rightarrow>
             (case JSON_parse (trim text) of
                None \<Rightarrow> st\<lparr>analyzer_error := msg_analyze_failed\<rparr>
              | Some resultData \<Rightarrow> st\<lparr>analysis := Some resultData\<rparr>))
      in st'\<lparr>analyzer_loading := False\<rparr>)"

definition handleAnalyze ::
    "(jsstring \<Rightarrow> StockAnalysis option) \<Rightarrow> (request \<Rightarrow> response) \<Rightarrow> storage \<Rightarrow>
     jsstring list \<Rightarrow> StockAnalyzer \<Rightarrow> StockAnalyzer \<times> request list" where
  "handleAnalyze JSON_parse generateContent ls edits st =
     (case handleAnalyze_begin ls st of
        (st', None) \<Rightarrow> (st', [])
      | (st', Some rq) \<Rightarrow>
          (handleAnalyze_resume JSON_parse (generateContent rq)
             (foldl (\<lambda>s v. setTicker v s) st' edits), [rq]))"

section \<open>Settings page\<close>

text \<open>The confirmation shown after saving (the API key was saved).\<close>

definition msg_saved :: jsstring where
  "msg_saved =
     [0x0041, 0x0050, 0x0049, 0x0020, 0x5BC6, 0x94A5, 0x5DF2, 0x6210, 0x529F, 0x4FDD,
      0x5B58, 0xFF01]"

text \<open>
  The state of the \<open>SettingsPage\<close> component. Its cell \<open>apiKey\<close> is named \<open>apiKey_input\<close>,
  the request above having a field \<open>apiKey\<close>.
\<close>

record SettingsPage =
  apiKey_input :: jsstring
  saveMessage :: jsstring

definition setApiKey :: "jsstring \<Rightarrow> SettingsPage \<Rightarrow> SettingsPage" where
  "setApiKey v st = st\<lparr>apiKey_input := v\<rparr>"

text \<open>
  \<^verbatim>\<open>
  const handleSave = () => {
      localStorage.setItem('gemini_api_key', apiKey);
      setSaveMessage(...);
      setTimeout(() => setSaveMessage(''), 3000);
  };
  \<close>
  \<open>setItem\<close> is taken to succeed (no quota error). The timer's later reset of the
  message is not part of this step.
\<close>

definition handleSave :: "storage \<Rightarrow> SettingsPage \<Rightarrow> storage \<times> SettingsPage" where
  "handleSave ls st = (ls(gemini_api_key \<mapsto> apiKey_input st), st\<lparr>saveMessage := msg_saved\<rparr>)"

section \<open>Initial states and sample inputs\<close>

text \<open>The initial values of the \<open>useState\<close> cells of the three components.\<close>

definition initial_StockScreener :: StockScreener where
  "initial_StockScreener = \<lparr>criteria = [], loading = False, error = [], screenerResults = None\<rparr>"

definition initial_StockAnalyzer :: StockAnalyzer where
  "initial_StockAnalyzer =
     \<lparr>ticker = [], analyzer_loading = False, analyzer_error = [], analysis = None\<rparr>"

definition initial_SettingsPage :: SettingsPage where
  "initial_SettingsPage = \<lparr>apiKey_input = [], saveMessage = []\<rparr>"

text \<open>
  Sample inputs: a \<open>localStorage\<close> that was never written and one holding the key \<open>'k1'\<close>,
  the inputs \<open>' '\<close> and \<open>'AAPL'\<close>, a remote that rejects, a remote that resolves to a given
  text, a parser that throws and a parser that returns a given value.
\<close>

definition empty_storage :: storage where
  "empty_storage = Map.empty"

definition storage_with_key :: storage where
  "storage_with_key = empty_storage(gemini_api_key \<mapsto> [0x006B, 0x0031])"

definition one_space :: jsstring where
  "one_space = [0x0020]"

definition AAPL :: jsstring where
  "AAPL = [0x0041, 0x0041, 0x0050, 0x004C]"

definition always_rejects :: "request \<Rightarrow> response" where
  "always_rejects rq = Rejected"

definition replies_with :: "jsstring \<Rightarrow> request \<Rightarrow> response" where
  "replies_with text rq = Resolved (Some text)"

definition parse_throws :: "jsstring \<Rightarrow> 'a option" where
  "parse_throws text = None"

definition parses_to :: "'a \<Rightarrow> jsstring \<Rightarrow> 'a option" where
  "parses_to resultData text = Some resultData"

text \<open>A stock with the given ticker and score, its other fields empty.\<close>

definition stock :: "jsstring \<Rightarrow> number \<Rightarrow> RecommendedStock" where
  "stock t s =
     \<lparr>name = [], stock_ticker = t, exchange = [], score = s, thesis = [],
      keyMetrics = \<lparr>grossMargin = [], peRatio = []\<rparr>\<rparr>"

text \<open>
  Four parsed results, two of score 58 and two of score 92, and the requests that the
  two handlers issue for the input \<open>'AAPL'\<close> under the stored key \<open>'k1'\<close>.
\<close>

definition example_results :: "RecommendedStock list" where
  "example_results =
     [stock [0x0041] 58, stock [0x0042] 92, stock [0x0043] 58, stock [0x0044] 92]"

definition screening_request :: request where
  "screening_request =
     \<lparr>apiKey = [0x006B, 0x0031], model = gemini_2_5_flash, contents = ScreeningPrompt AAPL,
      responseSchema = screenerSchema\<rparr>"

definition analysis_request :: request where
  "analysis_request =
     \<lparr>apiKey = [0x006B, 0x0031], model = gemini_2_5_flash, contents = AnalysisPrompt AAPL,
      responseSchema = analysisSchema\<rparr>"

text \<open>
  A parsed report rated high risk, and the two views as they stand after an earlier
  successful request for \<open>'AAPL'\<close>.
\<close>

definition example_analysis :: StockAnalysis where
  "example_analysis =
     \<lparr>companyProfile =
        \<lparr>profile_name = [], profile_ticker = AAPL, profile_exchange = [], industry = [],
         description = []\<rparr>,
      financialSummary = [],
      swotAnalysis = \<lparr>strengths = [], weaknesses = [], opportunities = [], threats = []\<rparr>,
      investmentThesis = \<lparr>bull = [], bear = []\<rparr>,
      riskAnalysis = \<lparr>rating = rating_high, summary = [], keyFactors = []\<rparr>,
      conclusion = []\<rparr>"

definition screener_with_results :: StockScreener where
  "screener_with_results =
     \<lparr>criteria = AAPL, loading = False, error = [], screenerResults = Some example_results\<rparr>"

definition analyzer_with_analysis :: StockAnalyzer where
  "analyzer_with_analysis =
     \<lparr>ticker = AAPL, analyzer_loading = False, analyzer_error = [],
      analysis = Some example_analysis\<rparr>"

text \<open>
  \<open>JSON.parse\<close> restricted to the documents of the empty array: an opening and a closing
  bracket with JSON whitespace (U+0009, U+000A, U+000D, U+0020, and nothing else) around
  and between them give \<open>[]\<close>; every other text is a SyntaxError here. The response text
  \<open>padded_empty_array\<close> is \<open>'[]'\<close> between U+FEFF and U+3000 U+000A, which \<open>trim\<close>
  strips and JSON does not allow.
\<close>

definition parse_empty_array :: "jsstring \<Rightarrow> RecommendedStock list option" where
  "parse_empty_array responseText =
     (if filter (\<lambda>c. c \<notin> set [0x0009, 0x000A, 0x000D, 0x0020]) responseText = [0x005B, 0x005D]
      then Some [] else None)"

definition padded_empty_array :: jsstring where
  "padded_empty_array = [0xFEFF, 0x005B, 0x005D, 0x3000, 0x000A]"

text \<open>
  A list of stocks is \<open>descending\<close> when it is ordered non-increasing by score: of any two
  elements, the earlier one has the greater or equal score.
\<close>

definition descending :: "RecommendedStock list \<Rightarrow> bool" where
  "descending xs = sorted_wrt (\<lambda>a b. score a \<ge> score b) xs"

section \<open>Score and risk tiers\<close>

lemma tier_names_distinct: "high \<noteq> medium" "high \<noteq> low" "medium \<noteq> low"
  by (simp_all add: high_def medium_def low_def)

text \<open>
  Claim C1. For every number \<open>s\<close>, \<open>getScoreClass\<close> returns \<open>'high'\<close> exactly when
  \<open>s \<ge> 85\<close>, \<open>'medium'\<close> exactly when \<open>60 \<le> s < 85\<close>, and \<open>'low'\<close> exactly when
  \<open>s < 60\<close>.
\<close>

theorem getScoreClass_tiers:
  "(getScoreClass s = high \<longleftrightarrow> s \<ge> 85) \<and>
   (getScoreClass s = medium \<longleftrightarrow> 60 \<le> s \<and> s < 85) \<and>
   (getScoreClass s = low \<longleftrightarrow> s < 60)"
  using tier_names_distinct by (auto simp: getScoreClass_def)

lemma rating_names_distinct:
  "rating_high \<noteq> rating_medium" "rating_high \<noteq> rating_low" "rating_medium \<noteq> rating_low"
  by (simp_all add: rating_high_def rating_medium_def rating_low_def)

lemma risk_classes_distinct:
  "risk_high \<noteq> risk_medium" "risk_high \<noteq> risk_low" "risk_medium \<noteq> risk_low"
  "risk_high \<noteq> []" "risk_medium \<noteq> []" "risk_low \<noteq> []"
  by (simp_all add: risk_high_def risk_medium_def risk_low_def)

text \<open>
  Claim C7. The risk class is decided by exact string equality with the three ratings of
  the enum: the high-risk rating gives \<open>'risk-high'\<close>, the medium-risk rating
  \<open>'risk-medium'\<close> and the low-risk rating \<open>'risk-low'\<close>, and no other string gives any
  of these classes.
\<close>

theorem getRiskClass_exact_match:
  "getRiskClass rating_high = risk_high \<and>
   getRiskClass rating_medium = risk_medium \<and>
   getRiskClass rating_low = risk_low \<and>
   (getRiskClass r = risk_high) = (r = rating_high) \<and>
   (getRiskClass r = risk_medium) = (r = rating_medium) \<and>
   (getRiskClass r = risk_low) = (r = rating_low)"
  using rating_names_distinct risk_classes_distinct
  by (auto simp: getRiskClass_def)

text \<open>
  Claim C10. For every rating string other than the three ratings of the enum,
  \<open>getRiskClass\<close> returns the empty class string; it has no failing branch.
\<close>

theorem getRiskClass_other:
  assumes "r \<noteq> rating_high" and "r \<noteq> rating_medium" and "r \<noteq> rating_low"
  shows "getRiskClass r = []"
  using assms by (simp add: getRiskClass_def)

theorem getRiskClass_other_witness:
  "high \<noteq> rating_high \<and> high \<noteq> rating_medium \<and> high \<noteq> rating_low \<and> getRiskClass high = []"
proof -
  have a: "high \<noteq> rating_high" by (simp add: high_def rating_high_def)
  have b: "high \<noteq> rating_medium" by (simp add: high_def rating_medium_def)
  have c: "high \<noteq> rating_low" by (simp add: high_def rating_low_def)
  from getRiskClass_other [OF a b c] a b c show ?thesis by simp
qed

section \<open>The credential slot\<close>

text \<open>
  Claim C6. For every string \<open>v\<close>, typing \<open>v\<close> into the settings field, saving, and then
  reading the credential back returns exactly \<open>v\<close>.
\<close>

theorem save_then_getApiKey:
  "getApiKey (fst (handleSave ls (setApiKey v st))) = Some v"
  by (simp add: getApiKey_def handleSave_def setApiKey_def)

section \<open>Helper facts: trimming, edits, sorting\<close>

lemma dropWhile_all_iff: "(\<forall>x\<in>set (dropWhile P xs). P x) \<longleftrightarrow> (\<forall>x\<in>set xs. P x)"
  by (induction xs) auto

lemma trim_Nil_iff: "trim s = [] \<longleftrightarrow> list_all isWhiteSpace s"
  by (simp add: trim_def dropWhile_all_iff list_all_iff)

lemma edits_criteria:
  "foldl (\<lambda>s v. setCriteria v s) st vs = st\<lparr>criteria := last (criteria st # vs)\<rparr>"
  by (induction vs arbitrary: st) (simp_all add: setCriteria_def)

lemma edits_ticker:
  "foldl (\<lambda>s v. setTicker v s) st vs = st\<lparr>ticker := last (ticker st # vs)\<rparr>"
  by (induction vs arbitrary: st) (simp_all add: setTicker_def)

lemma mset_sort_insert: "mset (sort_insert c a bs) = add_mset a (mset bs)"
  by (induction bs) simp_all

lemma mset_Array_sort: "mset (Array_sort c xs) = mset xs"
  by (induction xs) (simp_all add: mset_sort_insert)

lemma set_sort_insert: "set (sort_insert c a bs) = insert a (set bs)"
  by (induction bs) auto

lemma descending_sort_insert:
  "descending bs \<Longrightarrow> descending (sort_insert byScoreDesc a bs)"
  by (induction bs) (auto simp: descending_def byScoreDesc_def set_sort_insert)

lemma descending_Array_sort: "descending (Array_sort byScoreDesc xs)"
proof (induction xs)
  case Nil
  show ?case by (simp add: descending_def)
next
  case (Cons a xs)
  then show ?case by (simp add: descending_sort_insert)
qed

text \<open>
  Inserting \<open>a\<close> leaves the elements of any other score as they were, and puts \<open>a\<close> in
  front of the elements of its own score.
\<close>

lemma filter_sort_insert_other:
  "score a \<noteq> k \<Longrightarrow>
   filter (\<lambda>s. score s = k) (sort_insert byScoreDesc a bs) = filter (\<lambda>s. score s = k) bs"
  by (induction bs) simp_all

lemma filter_sort_insert_same:
  "filter (\<lambda>s. score s = score a) (sort_insert byScoreDesc a bs) =
   a # filter (\<lambda>s. score s = score a) bs"
  by (induction bs) (auto simp: byScoreDesc_def)

lemma stable_Array_sort:
  "filter (\<lambda>s. score s = k) (Array_sort byScoreDesc xs) = filter (\<lambda>s. score s = k) xs"
proof (induction xs)
  case Nil
  show ?case by simp
next
  case (Cons a xs)
  show ?case
  proof (cases "score a = k")
    case True
    with Cons show ?thesis
      using filter_sort_insert_same [of a "Array_sort byScoreDesc xs"] by simp
  next
    case False
    with Cons show ?thesis by (simp add: filter_sort_insert_other)
  qed
qed

text \<open>
  The engine is free in its choice of algorithm, but not in the result: a rearrangement
  that is non-increasing by score and keeps each score's elements in input order is the
  list \<open>Array_sort\<close> computes.
\<close>

lemma sort_insert_insort_key:
  "sort_insert byScoreDesc a bs = insort_key (\<lambda>s. - score s) a bs"
  by (induction bs) (simp_all add: byScoreDesc_def)

lemma Array_sort_sort_key: "Array_sort byScoreDesc xs = sort_key (\<lambda>s. - score s) xs"
  by (induction xs) (simp_all add: sort_insert_insort_key)

lemma Array_sort_unique:
  assumes "mset ys = mset xs" and "descending ys"
    and "\<And>k. filter (\<lambda>s. score s = k) ys = filter (\<lambda>s. score s = k) xs"
  shows "ys = Array_sort byScoreDesc xs"
proof -
  have "sort_key (\<lambda>s. - score s) xs = ys"
  proof (rule properties_for_sort_key)
    show "mset ys = mset xs" by (rule assms(1))
    show "sorted (map (\<lambda>s. - score s) ys)"
      using assms(2) by (simp add: descending_def sorted_map)
    fix k assume "k \<in> set ys"
    have e: "\<And>x. (- score k = - score x) = (score x = score k)" by auto
    show "filter (\<lambda>x. - score k = - score x) ys = filter (\<lambda>x. - score k = - score x) xs"
      unfolding e by (rule assms(3))
  qed
  then show ?thesis by (simp add: Array_sort_sort_key)
qed

lemma Array_sort_example:
  "Array_sort byScoreDesc example_results =
     [stock [0x0042] 92, stock [0x0044] 92, stock [0x0041] 58, stock [0x0043] 58]"
  by (simp add: example_results_def byScoreDesc_def stock_def)

section \<open>Helper facts: the guards of the two handlers\<close>

lemma handleScreen_begin_issued:
  assumes "snd (handleScreen_begin ls st) = Some rq"
  shows "handleScreen_begin ls st =
           (st\<lparr>loading := True, error := [], screenerResults := None\<rparr>, Some rq)"
  using assms by (auto simp: handleScreen_begin_def split: option.splits if_splits)

lemma handleAnalyze_begin_issued:
  assumes "snd (handleAnalyze_begin ls st) = Some rq"
  shows "handleAnalyze_begin ls st =
           (st\<lparr>analyzer_loading := True, analyzer_error := [], analysis := None\<rparr>, Some rq)"
  using assms by (auto simp: handleAnalyze_begin_def split: option.splits if_splits)

lemma getApiKey_storage_with_key: "getApiKey storage_with_key = Some [0x006B, 0x0031]"
  by (simp add: getApiKey_def storage_with_key_def)

lemma getApiKey_empty_storage: "getApiKey empty_storage = None"
  by (simp add: getApiKey_def empty_storage_def)

lemma trim_one_space: "trim one_space = []"
  by (simp add: trim_def one_space_def isWhiteSpace_def)

lemma trim_AAPL: "trim AAPL = AAPL"
  by (simp add: trim_def AAPL_def isWhiteSpace_def)

lemma AAPL_not_empty: "AAPL \<noteq> []"
  by (simp add: AAPL_def)

section \<open>Ordering of the screening results\<close>

text \<open>
  Claim C2. For every list of results produced by a successful screening request (a
  request was issued, its response text parsed), the collection put on display is
  ordered non-increasing by score, and elements of equal score keep their relative
  order from the parsed list: for each score, the elements of that score are the same
  sequence before and after. The displayed list is a rearrangement of the parsed one.
\<close>

theorem screening_results_sorted_stable:
  assumes "snd (handleScreen_begin ls st) = Some rq"
    and "generateContent rq = Resolved (Some responseText)"
    and "JSON_parse (trim responseText) = Some resultData"
  shows "\<exists>ys. screenerResults (fst (handleScreen JSON_parse generateContent ls edits st)) = Some ys \<and>
           descending ys \<and>
           (\<forall>k. filter (\<lambda>s. score s = k) ys = filter (\<lambda>s. score s = k) resultData) \<and>
           mset ys = mset resultData"
proof -
  have "screenerResults (fst (handleScreen JSON_parse generateContent ls edits st)) =
          Some (Array_sort byScoreDesc resultData)"
    using assms handleScreen_begin_issued [OF assms(1)]
    by (simp add: handleScreen_def handleScreen_resume_def edits_criteria)
  then show ?thesis
    using descending_Array_sort stable_Array_sort mset_Array_sort by blast
qed

lemma handleScreen_begin_sample:
  "handleScreen_begin storage_with_key (setCriteria AAPL initial_StockScreener) =
    (\<lparr>criteria = AAPL, loading = True, error = [], screenerResults = None\<rparr>,
     Some screening_request)"
  by (simp add: handleScreen_begin_def getApiKey_storage_with_key setCriteria_def
      initial_StockScreener_def trim_AAPL AAPL_not_empty screening_request_def)

lemma handleAnalyze_begin_sample:
  "handleAnalyze_begin storage_with_key (setTicker AAPL initial_StockAnalyzer) =
    (\<lparr>ticker = AAPL, analyzer_loading = True, analyzer_error = [], analysis = None\<rparr>,
     Some analysis_request)"
  by (simp add: handleAnalyze_begin_def getApiKey_storage_with_key setTicker_def
      initial_StockAnalyzer_def trim_AAPL AAPL_not_empty analysis_request_def)

theorem screening_results_sorted_stable_witness:
  "snd (handleScreen_begin storage_with_key (setCriteria AAPL initial_StockScreener)) =
     Some screening_request \<and>
   replies_with [] screening_request = Resolved (Some []) \<and>
   parses_to example_results (trim []) = Some example_results \<and>
   (\<exists>ys. screenerResults (fst (handleScreen (parses_to example_results) (replies_with [])
            storage_with_key [] (setCriteria AAPL initial_StockScreener))) = Some ys \<and>
         descending ys \<and>
         (\<forall>k. filter (\<lambda>s. score s = k) ys = filter (\<lambda>s. score s = k) example_results) \<and>
         mset ys = mset example_results)"
proof -
  have a: "snd (handleScreen_begin storage_with_key (setCriteria AAPL initial_StockScreener)) =
             Some screening_request"
    by (simp add: handleScreen_begin_sample)
  have b: "replies_with [] screening_request = Resolved (Some [])"
    by (simp add: replies_with_def)
  have c: "parses_to example_results (trim []) = Some example_results"
    by (simp add: parses_to_def)
  from screening_results_sorted_stable
         [where generateContent = "replies_with []" and JSON_parse = "parses_to example_results"
            and responseText = "[]" and edits = "[]", OF a b c] a b c
  show ?thesis by simp
qed

section \<open>The guards: credential first, then input\<close>

lemma messages_distinct:
  "msg_missing_credential \<noteq> msg_empty_criteria" "msg_missing_credential \<noteq> msg_empty_ticker"
  "msg_missing_credential \<noteq> []" "msg_empty_criteria \<noteq> []" "msg_empty_ticker \<noteq> []"
  "msg_screen_failed \<noteq> []" "msg_analyze_failed \<noteq> []"
  by (simp_all add: msg_missing_credential_def msg_empty_criteria_def msg_empty_ticker_def
      msg_screen_failed_def msg_analyze_failed_def)

lemma getApiKey_saved_empty:
  "getApiKey (fst (handleSave empty_storage (setApiKey [] initial_SettingsPage))) = Some []"
  by (simp add: getApiKey_def handleSave_def setApiKey_def initial_SettingsPage_def)

text \<open>
  Claim C3, as stated: for every submission whose input is blank or whitespace-only, no
  remote call is issued and the outcome is the empty-input error, whether or not a
  credential is stored. With no credential stored and the input \<open>' '\<close>, \<open>handleScreen\<close>
  ends with the missing-credential message instead: the credential guard comes first.
\<close>

theorem blank_input_without_credential:
  "list_all isWhiteSpace one_space \<and>
   handleScreen parse_throws always_rejects empty_storage []
       (setCriteria one_space initial_StockScreener) =
     (\<lparr>criteria = one_space, loading = False, error = msg_missing_credential,
       screenerResults = None\<rparr>, []) \<and>
   msg_missing_credential \<noteq> msg_empty_criteria"
  using trim_one_space messages_distinct(1)
  by (simp add: trim_Nil_iff handleScreen_def handleScreen_begin_def getApiKey_empty_storage
      setCriteria_def initial_StockScreener_def)

text \<open>
  Claim C3, amended. For every submission of the screening or analysis action whose
  input is blank or whitespace-only, no remote call is issued and nothing but the error
  message changes; the message is the empty-input one when a non-empty credential is
  stored, and the missing-credential one when none or the empty string is stored.
\<close>

theorem blank_input_no_call:
  assumes "list_all isWhiteSpace (criteria st)" and "list_all isWhiteSpace (ticker sa)"
  shows "handleScreen JSON_parse generateContent ls edits st =
           (st\<lparr>error := (if getApiKey ls = None \<or> getApiKey ls = Some []
                          then msg_missing_credential else msg_empty_criteria)\<rparr>, []) \<and>
         handleAnalyze JSON_parse' generateContent' ls edits' sa =
           (sa\<lparr>analyzer_error := (if getApiKey ls = None \<or> getApiKey ls = Some []
                                   then msg_missing_credential else msg_empty_ticker)\<rparr>, [])"
  using assms
  by (simp add: trim_Nil_iff [symmetric] handleScreen_def handleScreen_begin_def
      handleAnalyze_def handleAnalyze_begin_def split: option.splits)

theorem blank_input_no_call_witness:
  "list_all isWhiteSpace (criteria (setCriteria one_space initial_StockScreener)) \<and>
   list_all isWhiteSpace (ticker (setTicker one_space initial_StockAnalyzer)) \<and>
   handleScreen parse_throws always_rejects storage_with_key []
       (setCriteria one_space initial_StockScreener) =
     (\<lparr>criteria = one_space, loading = False, error = msg_empty_criteria,
       screenerResults = None\<rparr>, []) \<and>
   handleAnalyze parse_throws always_rejects storage_with_key []
       (setTicker one_space initial_StockAnalyzer) =
     (\<lparr>ticker = one_space, analyzer_loading = False, analyzer_error = msg_empty_ticker,
       analysis = None\<rparr>, [])"
proof -
  have a: "list_all isWhiteSpace (criteria (setCriteria one_space initial_StockScreener))"
    using trim_one_space by (simp add: trim_Nil_iff setCriteria_def)
  have b: "list_all isWhiteSpace (ticker (setTicker one_space initial_StockAnalyzer))"
    using trim_one_space by (simp add: trim_Nil_iff setTicker_def)
  from blank_input_no_call [OF a b, of parse_throws always_rejects storage_with_key "[]"
      parse_throws always_rejects "[]"] a b
  show ?thesis
    by (simp add: getApiKey_storage_with_key setCriteria_def setTicker_def
        initial_StockScreener_def initial_StockAnalyzer_def)
qed

text \<open>
  Claim C4. For every submission of the screening or analysis action while no credential
  is stored, whatever the input and whatever the remote would answer, no remote call is
  issued and the outcome is the missing-credential error; nothing else changes.
\<close>

theorem no_credential_no_call:
  assumes "getApiKey ls = None"
  shows "handleScreen JSON_parse generateContent ls edits st =
           (st\<lparr>error := msg_missing_credential\<rparr>, []) \<and>
         handleAnalyze JSON_parse' generateContent' ls edits' sa =
           (sa\<lparr>analyzer_error := msg_missing_credential\<rparr>, [])"
  using assms
  by (simp add: handleScreen_def handleScreen_begin_def handleAnalyze_def handleAnalyze_begin_def)

theorem no_credential_no_call_witness:
  "getApiKey empty_storage = None \<and>
   handleScreen (parses_to example_results) (replies_with []) empty_storage []
       (setCriteria AAPL initial_StockScreener) =
     (\<lparr>criteria = AAPL, loading = False, error = msg_missing_credential,
       screenerResults = None\<rparr>, []) \<and>
   handleAnalyze parse_throws (replies_with []) empty_storage []
       (setTicker AAPL initial_StockAnalyzer) =
     (\<lparr>ticker = AAPL, analyzer_loading = False, analyzer_error = msg_missing_credential,
       analysis = None\<rparr>, [])"
  using no_credential_no_call [OF getApiKey_empty_storage, of "parses_to example_results"
      "replies_with []" "[]" "setCriteria AAPL initial_StockScreener" parse_throws
      "replies_with []" "[]" "setTicker AAPL initial_StockAnalyzer"]
  by (simp add: getApiKey_empty_storage setCriteria_def setTicker_def
      initial_StockScreener_def initial_StockAnalyzer_def)

text \<open>
  Claim C9. If the credential slot holds the empty string (as it does after saving an
  empty settings field), every screening or analysis submission ends as in the
  no-credential case: no remote call is issued, the outcome is the missing-credential
  error, and the result is the one obtained with the credential removed from the slot.
\<close>

theorem empty_credential_no_call:
  assumes "getApiKey ls = Some []"
  shows "handleScreen JSON_parse generateContent ls edits st =
           (st\<lparr>error := msg_missing_credential\<rparr>, []) \<and>
         handleAnalyze JSON_parse' generateContent' ls edits' sa =
           (sa\<lparr>analyzer_error := msg_missing_credential\<rparr>, []) \<and>
         handleScreen JSON_parse generateContent ls edits st =
           handleScreen JSON_parse generateContent (ls(gemini_api_key := None)) edits st \<and>
         handleAnalyze JSON_parse' generateContent' ls edits' sa =
           handleAnalyze JSON_parse' generateContent' (ls(gemini_api_key := None)) edits' sa"
  using assms
  by (simp add: handleScreen_def handleScreen_begin_def handleAnalyze_def handleAnalyze_begin_def
      getApiKey_def)

theorem empty_credential_no_call_witness:
  "getApiKey (fst (handleSave empty_storage (setApiKey [] initial_SettingsPage))) = Some [] \<and>
   handleScreen (parses_to example_results) (replies_with [])
       (fst (handleSave empty_storage (setApiKey [] initial_SettingsPage))) []
       (setCriteria AAPL initial_StockScreener) =
     (\<lparr>criteria = AAPL, loading = False, error = msg_missing_credential,
       screenerResults = None\<rparr>, []) \<and>
   handleAnalyze parse_throws (replies_with [])
       (fst (handleSave empty_storage (setApiKey [] initial_SettingsPage))) []
       (setTicker AAPL initial_StockAnalyzer) =
     (\<lparr>ticker = AAPL, analyzer_loading = False, analyzer_error = msg_missing_credential,
       analysis = None\<rparr>, [])"
  using empty_credential_no_call [OF getApiKey_saved_empty, of "parses_to example_results"
      "replies_with []" "[]" "setCriteria AAPL initial_StockScreener" parse_throws
      "replies_with []" "[]" "setTicker AAPL initial_StockAnalyzer"]
  by (simp add: getApiKey_saved_empty setCriteria_def setTicker_def
      initial_StockScreener_def initial_StockAnalyzer_def)


section \<open>A response that does not parse\<close>

lemma trim_padded_empty_array: "trim padded_empty_array = [0x005B, 0x005D]"
  by (simp add: trim_def padded_empty_array_def isWhiteSpace_def)

lemma parse_padded_empty_array: "parse_empty_array padded_empty_array = None"
  by (simp add: parse_empty_array_def padded_empty_array_def)

lemma parse_trimmed_empty_array: "parse_empty_array (trim padded_empty_array) = Some []"
  by (simp add: parse_empty_array_def trim_padded_empty_array)

text \<open>
  Claim C5, as stated: for every remote call whose response text fails JSON parsing, the
  submission ends in the failure state with no result on display. The handlers parse
  the trimmed text, not the text itself. The response \<open>padded_empty_array\<close> is not JSON
  (its first code unit is U+FEFF), yet \<open>handleScreen\<close> trims it to \<open>'[]'\<close>, parses that
  and ends with an empty result list on display and no error message.
\<close>

theorem unparsable_text_parsed_after_trim:
  "parse_empty_array padded_empty_array = None \<and>
   handleScreen parse_empty_array (replies_with padded_empty_array) storage_with_key []
       (setCriteria AAPL initial_StockScreener) =
     (\<lparr>criteria = AAPL, loading = False, error = [], screenerResults = Some []\<rparr>,
      [screening_request]) \<and>
   msg_screen_failed \<noteq> []"
  using messages_distinct(6)
  by (simp add: handleScreen_def handleScreen_begin_sample handleScreen_resume_def
      replies_with_def parse_padded_empty_array parse_trimmed_empty_array)

text \<open>
  Claim C5, amended. For every remote call whose response text, trimmed of leading and
  trailing whitespace as the handlers trim it, fails JSON parsing, the submission ends
  with the generic failure message, the loading flag off and no result on display;
  exactly that one call was issued. This holds for the screener and for the analyzer.
\<close>

theorem unparsable_response_fails_cleanly:
  assumes "snd (handleScreen_begin ls st) = Some rq"
    and "generateContent rq = Resolved (Some responseText)"
    and "JSON_parse (trim responseText) = None"
    and "snd (handleAnalyze_begin ls' sa) = Some rq'"
    and "generateContent' rq' = Resolved (Some responseText')"
    and "JSON_parse' (trim responseText') = None"
  shows "handleScreen JSON_parse generateContent ls edits st =
           (st\<lparr>criteria := last (criteria st # edits), loading := False,
               error := msg_screen_failed, screenerResults := None\<rparr>, [rq]) \<and>
         handleAnalyze JSON_parse' generateContent' ls' edits' sa =
           (sa\<lparr>ticker := last (ticker sa # edits'), analyzer_loading := False,
               analyzer_error := msg_analyze_failed, analysis := None\<rparr>, [rq'])"
  using assms handleScreen_begin_issued [OF assms(1)] handleAnalyze_begin_issued [OF assms(4)]
  by (simp add: handleScreen_def handleScreen_resume_def handleAnalyze_def
      handleAnalyze_resume_def edits_criteria edits_ticker)

theorem unparsable_response_fails_cleanly_witness:
  "snd (handleScreen_begin storage_with_key (setCriteria AAPL initial_StockScreener)) =
     Some screening_request \<and>
   replies_with one_space screening_request = Resolved (Some one_space) \<and>
   (parse_throws (trim one_space) :: RecommendedStock list option) = None \<and>
   snd (handleAnalyze_begin storage_with_key (setTicker AAPL initial_StockAnalyzer)) =
     Some analysis_request \<and>
   replies_with one_space analysis_request = Resolved (Some one_space) \<and>
   (parse_throws (trim one_space) :: StockAnalysis option) = None \<and>
   handleScreen parse_throws (replies_with one_space) storage_with_key []
       (setCriteria AAPL initial_StockScreener) =
     (\<lparr>criteria = AAPL, loading = False, error = msg_screen_failed,
       screenerResults = None\<rparr>, [screening_request]) \<and>
   handleAnalyze parse_throws (replies_with one_space) storage_with_key []
       (setTicker AAPL initial_StockAnalyzer) =
     (\<lparr>ticker = AAPL, analyzer_loading = False, analyzer_error = msg_analyze_failed,
       analysis = None\<rparr>, [analysis_request])"
proof -
  have a: "snd (handleScreen_begin storage_with_key (setCriteria AAPL initial_StockScreener)) =
             Some screening_request"
    by (simp add: handleScreen_begin_sample)
  have b: "replies_with one_space screening_request = Resolved (Some one_space)"
    by (simp add: replies_with_def)
  have c: "(parse_throws (trim one_space) :: RecommendedStock list option) = None"
    by (simp add: parse_throws_def)
  have d: "snd (handleAnalyze_begin storage_with_key (setTicker AAPL initial_StockAnalyzer)) =
             Some analysis_request"
    by (simp add: handleAnalyze_begin_sample)
  have e: "replies_with one_space analysis_request = Resolved (Some one_space)"
    by (simp add: replies_with_def)
  have f: "(parse_throws (trim one_space) :: StockAnalysis option) = None"
    by (simp add: parse_throws_def)
  from unparsable_response_fails_cleanly
         [where generateContent = "replies_with one_space" and JSON_parse = parse_throws
            and responseText = one_space and generateContent' = "replies_with one_space"
            and JSON_parse' = parse_throws and responseText' = one_space
            and edits = "[]" and edits' = "[]", OF a b c d e f] a b c d e f
  show ?thesis
    by (simp add: setCriteria_def setTicker_def initial_StockScreener_def
        initial_StockAnalyzer_def)
qed

section \<open>What a new attempt clears and what it leaves\<close>

text \<open>
  Claim C8. For every screening or analysis submission that passes the credential check
  and the non-empty-input check, the state with which the remote call is issued has the
  prior result and the prior error message cleared (and the loading flag set). A
  submission that fails a check issues no call and leaves the prior result as it was, and
  so does an edit of the input field.
\<close>

theorem new_attempt_clears_prior_state:
  "((\<exists>k. getApiKey ls = Some k \<and> k \<noteq> []) \<and> trim (criteria st) \<noteq> [] \<longrightarrow>
      (\<exists>rq. handleScreen_begin ls st =
              (st\<lparr>loading := True, error := [], screenerResults := None\<rparr>, Some rq))) \<and>
   (\<not> ((\<exists>k. getApiKey ls = Some k \<and> k \<noteq> []) \<and> trim (criteria st) \<noteq> []) \<longrightarrow>
      snd (handleScreen_begin ls st) = None \<and>
      screenerResults (fst (handleScreen_begin ls st)) = screenerResults st) \<and>
   screenerResults (setCriteria v st) = screenerResults st \<and>
   ((\<exists>k. getApiKey ls = Some k \<and> k \<noteq> []) \<and> trim (ticker sa) \<noteq> [] \<longrightarrow>
      (\<exists>rq. handleAnalyze_begin ls sa =
              (sa\<lparr>analyzer_loading := True, analyzer_error := [], analysis := None\<rparr>, Some rq))) \<and>
   (\<not> ((\<exists>k. getApiKey ls = Some k \<and> k \<noteq> []) \<and> trim (ticker sa) \<noteq> []) \<longrightarrow>
      snd (handleAnalyze_begin ls sa) = None \<and>
      analysis (fst (handleAnalyze_begin ls sa)) = analysis sa) \<and>
   analysis (setTicker v sa) = analysis sa"
  by (auto simp: handleScreen_begin_def handleAnalyze_begin_def setCriteria_def setTicker_def
      split: option.splits)


theorem new_attempt_clears_prior_state_witness:
  "((\<exists>k. getApiKey storage_with_key = Some k \<and> k \<noteq> []) \<and>
      trim (criteria screener_with_results) \<noteq> []) \<and>
   handleScreen_begin storage_with_key screener_with_results =
     (\<lparr>criteria = AAPL, loading = True, error = [], screenerResults = None\<rparr>,
      Some screening_request) \<and>
   \<not> ((\<exists>k. getApiKey empty_storage = Some k \<and> k \<noteq> []) \<and>
      trim (criteria screener_with_results) \<noteq> []) \<and>
   snd (handleScreen_begin empty_storage screener_with_results) = None \<and>
   screenerResults (fst (handleScreen_begin empty_storage screener_with_results)) =
     Some example_results \<and>
   ((\<exists>k. getApiKey storage_with_key = Some k \<and> k \<noteq> []) \<and>
      trim (ticker analyzer_with_analysis) \<noteq> []) \<and>
   handleAnalyze_begin storage_with_key analyzer_with_analysis =
     (\<lparr>ticker = AAPL, analyzer_loading = True, analyzer_error = [], analysis = None\<rparr>,
      Some analysis_request) \<and>
   \<not> ((\<exists>k. getApiKey empty_storage = Some k \<and> k \<noteq> []) \<and>
      trim (ticker analyzer_with_analysis) \<noteq> []) \<and>
   snd (handleAnalyze_begin empty_storage analyzer_with_analysis) = None \<and>
   analysis (fst (handleAnalyze_begin empty_storage analyzer_with_analysis)) =
     Some example_analysis"
proof -
  have pass: "(\<exists>k. getApiKey storage_with_key = Some k \<and> k \<noteq> []) \<and>
      trim (criteria screener_with_results) \<noteq> []"
    "(\<exists>k. getApiKey storage_with_key = Some k \<and> k \<noteq> []) \<and>
      trim (ticker analyzer_with_analysis) \<noteq> []"
    by (simp_all add: getApiKey_storage_with_key screener_with_results_def
        analyzer_with_analysis_def trim_AAPL AAPL_not_empty)
  have fail: "\<not> ((\<exists>k. getApiKey empty_storage = Some k \<and> k \<noteq> []) \<and>
      trim (criteria screener_with_results) \<noteq> [])"
    "\<not> ((\<exists>k. getApiKey empty_storage = Some k \<and> k \<noteq> []) \<and>
      trim (ticker analyzer_with_analysis) \<noteq> [])"
    by (simp_all add: getApiKey_empty_storage)
  from new_attempt_clears_prior_state
         [of storage_with_key screener_with_results "[]" analyzer_with_analysis]
       new_attempt_clears_prior_state
         [of empty_storage screener_with_results "[]" analyzer_with_analysis]
       pass fail
  show ?thesis
    by (simp add: getApiKey_storage_with_key getApiKey_empty_storage
        screener_with_results_def analyzer_with_analysis_def screening_request_def
        analysis_request_def handleScreen_begin_def handleAnalyze_begin_def
        trim_AAPL AAPL_not_empty)
qed

end
